theory Spec2Isabelle
  imports Main "HOL-Library.Word"
begin

unbundle bit_operations_syntax

section \<open>Python values, exceptions and the I2C bus\<close>

text \<open>
  The driver raises \<open>ValueError\<close> with five different messages; the tag records which
  \<^verbatim>\<open>raise\<close> statement of the source produced it (\<open>BadBufferSize\<close> is the one of
  \<^verbatim>\<open>ustruct.unpack\<close> on a buffer of the wrong size). \<open>IndexError\<close> is Python's own error of
  an out-of-range subscript. \<open>BusFault\<close> stands for any exception raised inside the
  \<^verbatim>\<open>machine.SoftI2C\<close> object, which is not part of the repository.
\<close>

datatype value_error =
    InvalidFrequency
  | InvalidReadLength
  | ByteOutOfRange
  | UnexpectedDataType
  | InvalidPWM
  | BadBufferSize

datatype error = ValueError value_error | IndexError | BusFault

type_synonym byte = "8 word"

text \<open>
  Every call made on the bus object (and the call of \<^verbatim>\<open>sleep_us\<close>) is recorded, in order,
  as a recording fake bus would. The peripherals are byte-addressable register files:
  \<open>mem s (a, r)\<close> is register \<open>r\<close> of the device at bus address \<open>a\<close>.
\<close>

datatype event =
    Readfrom_mem int int int
  | Writeto_mem int int "byte list"
  | Sleep_us int

record i2c =
  mem :: "int \<times> int \<Rightarrow> byte"
  trace :: "event list"

type_synonym 'a io = "i2c \<Rightarrow> (error + 'a) \<times> i2c"

definition io_return :: "'a \<Rightarrow> 'a io" where
  "io_return x s = (Inr x, s)"

definition io_raise :: "error \<Rightarrow> 'a io" where
  "io_raise e s = (Inl e, s)"

definition io_bind :: "'a io \<Rightarrow> ('a \<Rightarrow> 'b io) \<Rightarrow> 'b io" where
  "io_bind m f s = (case m s of (Inl e, s') \<Rightarrow> (Inl e, s') | (Inr x, s') \<Rightarrow> f x s')"

fun store :: "(int \<times> int \<Rightarrow> byte) \<Rightarrow> int \<Rightarrow> int \<Rightarrow> byte list \<Rightarrow> (int \<times> int \<Rightarrow> byte)" where
  "store m a r [] = m"
| "store m a r (b # bs) = store (m((a, r) := b)) a (r + 1) bs"

text \<open>
  \<^verbatim>\<open>i2c.readfrom_mem(addr, memaddr, nbytes)\<close>: the bytes of \<open>nbytes\<close> consecutive registers.
  A negative count never reaches the wire: the bus object fails on it.
\<close>

definition readfrom_mem :: "int \<Rightarrow> int \<Rightarrow> int \<Rightarrow> byte list io" where
  "readfrom_mem addr memaddr nbytes s =
     (let s' = s\<lparr>trace := trace s @ [Readfrom_mem addr memaddr nbytes]\<rparr>
      in if nbytes < 0 then (Inl BusFault, s')
         else (Inr (map (\<lambda>i. mem s (addr, memaddr + int i)) [0..<nat nbytes]), s'))"

text \<open>\<^verbatim>\<open>i2c.writeto_mem(addr, memaddr, buf)\<close>: the buffer goes to consecutive registers.\<close>

definition writeto_mem :: "int \<Rightarrow> int \<Rightarrow> byte list \<Rightarrow> unit io" where
  "writeto_mem addr memaddr buf s =
     (Inr (), s\<lparr>mem := store (mem s) addr memaddr buf,
                trace := trace s @ [Writeto_mem addr memaddr buf]\<rparr>)"

definition sleep_us :: "int \<Rightarrow> unit io" where
  "sleep_us n s = (Inr (), s\<lparr>trace := trace s @ [Sleep_us n]\<rparr>)"

text \<open>
  The subscript \<^verbatim>\<open>xs[i]\<close> of a Python list or tuple. From \<open>-len(xs)\<close> to \<open>-1\<close> the index
  counts back from the end; outside \<open>-len(xs) ... len(xs) - 1\<close> Python raises IndexError,
  which is \<open>None\<close> here.
\<close>

definition py_index :: "'a list \<Rightarrow> int \<Rightarrow> 'a option" where
  "py_index xs i =
     (if 0 \<le> i \<and> i < int (length xs) then Some (xs ! nat i)
      else if - int (length xs) \<le> i \<and> i < 0 then Some (xs ! nat (int (length xs) + i))
      else None)"

text \<open>
  \<^verbatim>\<open>round(a / b)\<close> for integers \<open>a\<close> and \<open>b > 0\<close>: the nearest integer of the quotient, a tie
  going to the even neighbour. The source divides in floating point; the quotients of
  \<open>25000000\<close> by a multiple of \<open>4096\<close> are never ties (lemma \<open>prescaler_quotient_no_tie\<close>)
  and stay further from one than the precision of a double, so the exact quotient rounds
  to the same integer.
\<close>

definition py_round_div :: "int \<Rightarrow> int \<Rightarrow> int" where
  "py_round_div a b =
     (let q = a div b; r = a mod b
      in if 2 * r < b then q
         else if b < 2 * r then q + 1
         else if even q then q else q + 1)"

text \<open>
  \<^verbatim>\<open>ustruct.pack("<2H", a, b)\<close>: two unsigned 16-bit values, low byte first. MicroPython keeps
  the low 16 bits of a value that does not fit.
\<close>

definition pack_2H :: "int \<Rightarrow> int \<Rightarrow> byte list" where
  "pack_2H a b =
     [word_of_int (a mod 256), word_of_int (a div 256 mod 256),
      word_of_int (b mod 256), word_of_int (b div 256 mod 256)]"

text \<open>\<^verbatim>\<open>ustruct.unpack("<2H", buf)\<close>: defined on a buffer of four bytes.\<close>

fun unpack_2H :: "byte list \<Rightarrow> (int \<times> int) option" where
  "unpack_2H [a, b, c, d] = Some (uint a + 256 * uint b, uint c + 256 * uint d)"
| "unpack_2H _ = None"

section \<open>pca9685.py\<close>

text \<open>
  A board is a plain \<open>PCA9685\<close> or a \<open>ServoController\<close>, which adds the two duty bounds.
  The constructor of \<open>PCA9685\<close> creates \<open>PWMPin\<close> objects and that of \<open>ServoController\<close>
  creates \<open>ServoPin\<close> objects, so the class of a pin is the class of its parent; a pin
  holds its parent by reference, which the model passes as an argument.
\<close>

datatype board =
    PCA9685 (address: int)
  | ServoController (address: int) (min_duty: int) (max_duty: int)

record pwm_pin =
  index :: int
  pin_address :: int

definition PWMPin :: "int \<Rightarrow> pwm_pin" where
  "PWMPin i = \<lparr>index = i, pin_address = 0x06 + 4 * i\<rparr>"

definition pins :: "board \<Rightarrow> pwm_pin list" where
  "pins b = map (\<lambda>i. PWMPin (int i)) [0..<16]"

datatype payload = Bytes "byte list" | Seq "int list" | OtherObject

datatype mem_data = Unpacked "int list" | Raw "byte list"

definition write_memory :: "board \<Rightarrow> int \<Rightarrow> payload \<Rightarrow> unit io" where
  "write_memory b memory_address vals =
     (case vals of
        Bytes data \<Rightarrow> writeto_mem (address b) memory_address data
      | Seq vs \<Rightarrow>
          if list_all (\<lambda>v. 0 \<le> v \<and> v \<le> 255) vs
          then writeto_mem (address b) memory_address (map word_of_int vs)
          else io_raise (ValueError ByteOutOfRange)
      | OtherObject \<Rightarrow> io_raise (ValueError UnexpectedDataType))"

definition read_memory :: "board \<Rightarrow> int \<Rightarrow> int \<Rightarrow> bool \<Rightarrow> mem_data io" where
  "read_memory b memory_address len unpack =
     (if len = 1 \<or> len mod 2 = 0
      then io_bind (readfrom_mem (address b) memory_address len)
             (\<lambda>data. if unpack then io_return (Unpacked (map uint data))
                      else io_return (Raw data))
      else io_raise (ValueError InvalidReadLength))"

definition reset :: "board \<Rightarrow> unit io" where
  "reset b = write_memory b 0x00 (Seq [0x00])"

text \<open>The getter of the property \<^verbatim>\<open>frequency\<close>.\<close>

definition frequency :: "board \<Rightarrow> int io" where
  "frequency b =
     io_bind (read_memory b 0xFE 1 True)
       (\<lambda>r. case r of
               Unpacked (scale # _) \<Rightarrow> io_return (py_round_div 25000000 (4096 * (scale + 1)))
             | _ \<Rightarrow> io_raise IndexError)"

text \<open>The setter of the property \<^verbatim>\<open>frequency\<close>.\<close>

definition frequency_set :: "board \<Rightarrow> int \<Rightarrow> unit io" where
  "frequency_set b f =
     (if \<not> (24 \<le> f \<and> f \<le> 1526) then io_raise (ValueError InvalidFrequency)
      else
        let scale = py_round_div 25000000 (4096 * f)
        in io_bind (write_memory b 0x00 (Seq [0x10])) (\<lambda>_.
           io_bind (write_memory b 0xFE (Seq [scale])) (\<lambda>_.
           io_bind (write_memory b 0x00 (Seq [0x00])) (\<lambda>_.
           io_bind (sleep_us 500) (\<lambda>_.
           write_memory b 0x00 (Seq [0xA1]))))))"

definition init_PCA9685 :: "int \<Rightarrow> board io" where
  "init_PCA9685 addr = io_bind (reset (PCA9685 addr)) (\<lambda>_. io_return (PCA9685 addr))"

definition init_ServoController :: "int \<Rightarrow> int \<Rightarrow> int \<Rightarrow> int \<Rightarrow> board io" where
  "init_ServoController addr f mn mx =
     (let b = ServoController addr mn mx
      in io_bind (reset b) (\<lambda>_. io_bind (frequency_set b f) (\<lambda>_. io_return b)))"

text \<open>The getter of the property \<^verbatim>\<open>pwm\<close>.\<close>

definition pwm :: "board \<Rightarrow> pwm_pin \<Rightarrow> (int \<times> int) io" where
  "pwm parent p =
     io_bind (read_memory parent (pin_address p) 4 False)
       (\<lambda>r. case r of
               Raw buf \<Rightarrow> (case unpack_2H buf of
                             Some c \<Rightarrow> io_return c
                           | None \<Rightarrow> io_raise (ValueError BadBufferSize))
             | Unpacked _ \<Rightarrow> io_raise (ValueError BadBufferSize))"

definition set_pwm :: "board \<Rightarrow> pwm_pin \<Rightarrow> int \<Rightarrow> int \<Rightarrow> unit io" where
  "set_pwm parent p on off =
     (if 0 \<le> on \<and> on \<le> 4095 \<and> 0 \<le> off \<and> off \<le> 4096
      then write_memory parent (pin_address p) (Bytes (pack_2H on off))
      else io_raise (ValueError InvalidPWM))"

text \<open>The getter of the property \<^verbatim>\<open>duty\<close>.\<close>

definition duty :: "board \<Rightarrow> pwm_pin \<Rightarrow> int io" where
  "duty parent p =
     io_bind (pwm parent p)
       (\<lambda>(on, off). if on = 0 \<and> off = 4096 then io_return 0
                     else if on = 4096 \<and> off = 0 then io_return 4095
                     else io_return off)"

text \<open>\<^verbatim>\<open>_duty_bound\<close>: \<open>None\<close> is the NotImplementedError of the base class.\<close>

definition duty_bound :: "board \<Rightarrow> int \<Rightarrow> int option" where
  "duty_bound parent v =
     (case parent of
        PCA9685 _ \<Rightarrow> None
      | ServoController _ mn mx \<Rightarrow> Some (min mx (max mn v)))"

text \<open>The setter of the property \<^verbatim>\<open>duty\<close>.\<close>

definition duty_set :: "board \<Rightarrow> pwm_pin \<Rightarrow> int \<Rightarrow> unit io" where
  "duty_set parent p v =
     (let v' = (case duty_bound parent v of Some w \<Rightarrow> w | None \<Rightarrow> v)
      in if v' = 0 then set_pwm parent p 0 4096
         else if v' = 4095 then set_pwm parent p 4096 0
         else set_pwm parent p 0 v')"

section \<open>clock.py\<close>

definition bits_representation :: "int list" where
  "bits_representation = [0x3F, 0x06, 0x5B, 0x4F, 0x66, 0x6D, 0x7D, 0x07, 0x7F, 0x6F]"

record segment =
  board :: board
  duties_list :: "(int \<times> int) list"

definition ones :: "(nat \<times> int) list" where
  "ones = map (\<lambda>(i, p). (i, int p)) (enumerate 0 [0..<7])"

definition tens :: "(nat \<times> int) list" where
  "tens = map (\<lambda>(i, p). (i, int p)) (enumerate 0 [7..<14])"

definition duties :: "segment \<Rightarrow> int \<Rightarrow> int \<times> int" where
  "duties seg pin =
     (case py_index (duties_list seg) pin of
        Some (off, on) \<Rightarrow> (off, on)
      | None \<Rightarrow> (min_duty (board seg), max_duty (board seg)))"

text \<open>One of the two \<^verbatim>\<open>for\<close> loops of \<^verbatim>\<open>write\<close>, which differ in the digit and the pin list.\<close>

fun write_place :: "segment \<Rightarrow> int \<Rightarrow> (nat \<times> int) list \<Rightarrow> unit io" where
  "write_place seg digit [] = io_return ()"
| "write_place seg digit ((idx, pin) # rest) =
     (case duties seg pin of (off, on) \<Rightarrow>
       (case py_index (pins (board seg)) pin of
          None \<Rightarrow> io_raise IndexError
        | Some p \<Rightarrow>
            (case py_index bits_representation digit of
               None \<Rightarrow> io_raise IndexError
             | Some bits \<Rightarrow>
                 io_bind (if bits AND 2 ^ idx \<noteq> 0 then duty_set (board seg) p on
                          else duty_set (board seg) p off)
                   (\<lambda>_. write_place seg digit rest))))"

text \<open>\<^verbatim>\<open>Segment.write\<close>.\<close>

definition Segment_write :: "segment \<Rightarrow> int \<Rightarrow> unit io" where
  "Segment_write seg number =
     (let tens' = number div 10; ones' = number mod 10
      in io_bind (write_place seg ones' ones) (\<lambda>_. write_place seg tens' tens))"

section \<open>Rounding the prescaler quotient\<close>

lemma round_nearest:
  fixes n b :: int
  assumes b: "0 < b" and nt: "2 * (n mod b) \<noteq> b"
  shows "2 * \<bar>n - b * py_round_div n b\<bar> < b"
proof -
  let ?q = "n div b"
  let ?r = "n mod b"
  have r: "0 \<le> ?r" "?r < b" using b by simp_all
  have eq: "b * ?q + ?r = n" by (rule mult_div_mod_eq)
  show ?thesis
  proof (cases "2 * ?r < b")
    case True
    then have "py_round_div n b = ?q" by (simp add: py_round_div_def Let_def)
    moreover have "n - b * ?q = ?r" using eq by linarith
    ultimately show ?thesis using True r by simp
  next
    case False
    with nt have gt: "b < 2 * ?r" by linarith
    then have "py_round_div n b = ?q + 1" by (simp add: py_round_div_def Let_def)
    moreover have "n - b * (?q + 1) = ?r - b" using eq by (simp add: algebra_simps)
    moreover have "?r < b" using b by simp
    ultimately show ?thesis using gt by simp
  qed
qed

lemma no_tie_generic:
  fixes n b k :: int
  assumes "b = 4096 * k" and "\<not> 4096 dvd 2 * n"
  shows "2 * (n mod b) \<noteq> b"
proof
  assume tie: "2 * (n mod b) = b"
  have "b * (n div b) + n mod b = n" by (rule mult_div_mod_eq)
  then have "2 * n = 2 * (b * (n div b)) + b"
    using tie by linarith
  also have "\<dots> = b * (2 * (n div b) + 1)"
    by (simp add: algebra_simps)
  finally have "2 * n = b * (2 * (n div b) + 1)" .
  then have "2 * n = 4096 * (k * (2 * (n div b) + 1))"
    using assms(1) by simp
  then have "4096 dvd 2 * n"
    by (metis dvd_triv_left)
  with assms(2) show False by simp
qed

lemma prescaler_quotient_no_tie:
  fixes k :: int
  shows "2 * (25000000 mod (4096 * k)) \<noteq> 4096 * k"
  by (rule no_tie_generic [where k = k]) simp_all

lemma py_round_div_nearest:
  assumes "0 < k"
  shows "2 * \<bar>25000000 - 4096 * k * py_round_div 25000000 (4096 * k)\<bar> < 4096 * k"
  using round_nearest [of "4096 * k" 25000000] assms prescaler_quotient_no_tie [of k]
  by simp

lemma scale_range:
  assumes "24 \<le> f" "f \<le> 1526"
  shows "4 \<le> py_round_div 25000000 (4096 * f)" "py_round_div 25000000 (4096 * f) \<le> 254"
proof -
  define s where "s = py_round_div 25000000 (4096 * f)"
  define m where "m = f * s"
  have pos: "0 < f" using assms by simp
  have "2 * \<bar>25000000 - 4096 * f * s\<bar> < 4096 * f"
    unfolding s_def by (rule py_round_div_nearest [OF pos])
  then have n: "2 * \<bar>25000000 - 4096 * m\<bar> < 4096 * f"
    by (simp add: m_def mult.assoc)
  have "4 \<le> s"
  proof (rule ccontr)
    assume "\<not> 4 \<le> s"
    then have "s \<le> 3" by simp
    then have "m \<le> f * 3" unfolding m_def using pos by (intro mult_left_mono) simp_all
    then show False using n assms by (simp add: abs_less_iff)
  qed
  moreover have "s \<le> 254"
  proof (rule ccontr)
    assume "\<not> s \<le> 254"
    then have "255 \<le> s" by simp
    then have "f * 255 \<le> m" unfolding m_def using pos by (intro mult_left_mono) simp_all
    then show False using n assms by (simp add: abs_less_iff)
  qed
  ultimately show "4 \<le> py_round_div 25000000 (4096 * f)" "py_round_div 25000000 (4096 * f) \<le> 254"
    by (simp_all add: s_def)
qed

section \<open>Bytes on the wire\<close>

lemma byte_of_scale:
  assumes "0 \<le> k" "k \<le> 255"
  shows "uint (word_of_int k :: byte) = k"
  using assms by (simp add: uint_word_of_int take_bit_eq_mod)

lemma unpack_pack_2H:
  assumes "0 \<le> a" "a < 65536" "0 \<le> b" "b < 65536"
  shows "unpack_2H (pack_2H a b) = Some (a, b)"
proof -
  have bytes: "uint (word_of_int (x mod 256) :: byte) = x mod 256" for x :: int
    by (simp add: uint_word_of_int take_bit_eq_mod)
  have hi: "x div 256 mod 256 = x div 256" if "0 \<le> x" "x < 65536" for x :: int
    using that by (simp add: div_less_iff_less_mult)
  have up: "uint (word_of_int (x div 256) :: byte) = x div 256" if "0 \<le> x" "x < 65536" for x :: int
    using that hi [of x] by (simp add: uint_word_of_int take_bit_eq_mod)
  show ?thesis
    using assms by (simp add: pack_2H_def bytes hi up)
qed

section \<open>The servo clamp\<close>

text \<open>
  Claim C5. On a \<open>ServoController\<close> with \<open>min_duty \<le> max_duty\<close>, \<^verbatim>\<open>ServoPin._duty_bound\<close>
  returns \<open>min max_duty (max min_duty v)\<close> for every requested duty \<open>v\<close>; that value lies
  between the two bounds, and bounding it again returns it unchanged.
\<close>

theorem duty_bound_clamps:
  assumes "mn \<le> mx"
  shows "duty_bound (ServoController a mn mx) v = Some (min mx (max mn v))
       \<and> mn \<le> min mx (max mn v) \<and> min mx (max mn v) \<le> mx
       \<and> duty_bound (ServoController a mn mx) (min mx (max mn v)) = Some (min mx (max mn v))"
  using assms by (simp add: duty_bound_def)

theorem duty_bound_clamps_witness:
  "(180::int) \<le> 500
   \<and> duty_bound (ServoController 64 180 500) 9000 = Some 500
   \<and> duty_bound (ServoController 64 180 500) 500 = Some 500
   \<and> duty_bound (ServoController 64 180 500) (-3) = Some 180
   \<and> duty_bound (ServoController 64 180 500) 180 = Some 180"
  using duty_bound_clamps [of 180 500 64 9000] duty_bound_clamps [of 180 500 64 "-3"]
  by simp

section \<open>Raw PWM counts\<close>

text \<open>
  Claim C6. \<^verbatim>\<open>set_pwm(on, off)\<close> raises its error exactly when
  \<open>0 \<le> on \<le> 4095\<close> and \<open>0 \<le> off \<le> 4096\<close> do not both hold, and then leaves the bus as it was
  (no transaction, as for \<open>on = 4096\<close>, \<open>off = 1\<close>). Otherwise it succeeds with a single
  \<^verbatim>\<open>writeto_mem\<close> at the pin's register \<open>0x06 + 4 * index\<close> of four bytes: low and high
  byte of \<open>on\<close>, then low and high byte of \<open>off\<close>; the four registers hold these bytes
  afterwards, and the bytes read little-endian give \<open>on\<close> and \<open>off\<close> back.
\<close>

theorem set_pwm_checks_then_writes:
  "(fst (set_pwm parent (PWMPin i) on off s) = Inl (ValueError InvalidPWM))
     = (\<not> (0 \<le> on \<and> on \<le> 4095 \<and> 0 \<le> off \<and> off \<le> 4096))
   \<and> (\<not> (0 \<le> on \<and> on \<le> 4095 \<and> 0 \<le> off \<and> off \<le> 4096) \<longrightarrow>
        snd (set_pwm parent (PWMPin i) on off s) = s)
   \<and> (0 \<le> on \<and> on \<le> 4095 \<and> 0 \<le> off \<and> off \<le> 4096 \<longrightarrow>
        fst (set_pwm parent (PWMPin i) on off s) = Inr ()
      \<and> trace (snd (set_pwm parent (PWMPin i) on off s)) =
          trace s @ [Writeto_mem (address parent) (6 + 4 * i)
                       [word_of_int (on mod 256), word_of_int (on div 256),
                        word_of_int (off mod 256), word_of_int (off div 256)]]
      \<and> map (\<lambda>k. mem (snd (set_pwm parent (PWMPin i) on off s)) (address parent, 6 + 4 * i + k))
            [0, 1, 2, 3] =
          [word_of_int (on mod 256), word_of_int (on div 256),
           word_of_int (off mod 256), word_of_int (off div 256)]
      \<and> uint (word_of_int (on mod 256) :: byte) + 256 * uint (word_of_int (on div 256) :: byte) = on
      \<and> uint (word_of_int (off mod 256) :: byte) + 256 * uint (word_of_int (off div 256) :: byte) = off)"
proof -
  have hi: "x div 256 mod 256 = x div 256" if "0 \<le> x" "x < 65536" for x :: int
    using that by (simp add: div_less_iff_less_mult)
  have lo: "uint (word_of_int (x mod 256) :: byte) = x mod 256" for x :: int
    by (simp add: uint_word_of_int take_bit_eq_mod)
  have up: "uint (word_of_int (x div 256) :: byte) = x div 256" if "0 \<le> x" "x < 65536" for x :: int
    using that hi [of x] by (simp add: uint_word_of_int take_bit_eq_mod)
  show ?thesis
    by (simp add: set_pwm_def write_memory_def writeto_mem_def io_raise_def PWMPin_def
        pack_2H_def hi lo up)
qed

theorem set_pwm_checks_then_writes_witness:
  "set_pwm (PCA9685 0x40) (PWMPin 3) 4096 1 \<lparr>mem = (\<lambda>_. 0), trace = []\<rparr>
     = (Inl (ValueError InvalidPWM), \<lparr>mem = (\<lambda>_. 0), trace = []\<rparr>)
   \<and> fst (set_pwm (PCA9685 0x40) (PWMPin 3) 0 500 \<lparr>mem = (\<lambda>_. 0), trace = []\<rparr>) = Inr ()
   \<and> trace (snd (set_pwm (PCA9685 0x40) (PWMPin 3) 0 500 \<lparr>mem = (\<lambda>_. 0), trace = []\<rparr>))
     = [Writeto_mem 0x40 18 [0, 0, 0xF4, 0x01]]"
  using set_pwm_checks_then_writes [of "PCA9685 0x40" 3 4096 1 "\<lparr>mem = (\<lambda>_. 0), trace = []\<rparr>"]
    set_pwm_checks_then_writes [of "PCA9685 0x40" 3 0 500 "\<lparr>mem = (\<lambda>_. 0), trace = []\<rparr>"]
  by (simp add: prod_eq_iff)

section \<open>Setting the frequency\<close>

lemma frequency_set_in_range:
  assumes "24 \<le> f" "f \<le> 1526"
  shows "fst (frequency_set b f s) = Inr ()"
    and "trace (snd (frequency_set b f s)) =
           trace s @ [Writeto_mem (address b) 0x00 [0x10],
                      Writeto_mem (address b) 0xFE [word_of_int (py_round_div 25000000 (4096 * f))],
                      Writeto_mem (address b) 0x00 [0x00],
                      Sleep_us 500,
                      Writeto_mem (address b) 0x00 [0xA1]]"
    and "mem (snd (frequency_set b f s)) (address b, 0xFE) =
           word_of_int (py_round_div 25000000 (4096 * f))"
proof -
  have sc: "0 \<le> py_round_div 25000000 (4096 * f)" "py_round_div 25000000 (4096 * f) \<le> 255"
    using scale_range [OF assms] by simp_all
  show "fst (frequency_set b f s) = Inr ()"
    using assms sc
    by (simp add: frequency_set_def write_memory_def writeto_mem_def sleep_us_def io_bind_def)
  show "trace (snd (frequency_set b f s)) =
           trace s @ [Writeto_mem (address b) 0x00 [0x10],
                      Writeto_mem (address b) 0xFE [word_of_int (py_round_div 25000000 (4096 * f))],
                      Writeto_mem (address b) 0x00 [0x00],
                      Sleep_us 500,
                      Writeto_mem (address b) 0x00 [0xA1]]"
    using assms sc
    by (simp add: frequency_set_def write_memory_def writeto_mem_def sleep_us_def io_bind_def)
  show "mem (snd (frequency_set b f s)) (address b, 0xFE) =
           word_of_int (py_round_div 25000000 (4096 * f))"
    using assms sc
    by (simp add: frequency_set_def write_memory_def writeto_mem_def sleep_us_def io_bind_def)
qed

lemma frequency_set_out_of_range:
  assumes "f < 24 \<or> 1526 < f"
  shows "frequency_set b f s = (Inl (ValueError InvalidFrequency), s)"
  using assms by (auto simp add: frequency_set_def io_raise_def)

text \<open>
  Claim C3. For \<open>24 \<le> f \<le> 1526\<close> the setter of \<^verbatim>\<open>frequency\<close> succeeds, and what it adds to the
  record of bus calls is exactly, in this order: mode register \<open>0x00\<close> written with the sleep
  bit \<open>0x10\<close>; prescaler register \<open>0xFE\<close> written with \<open>scale\<close>; mode register written with
  \<open>0x00\<close>; the call \<^verbatim>\<open>sleep_us(500)\<close>; mode register written with \<open>0xA1\<close>. Here \<open>scale\<close> is
  \<open>round(25000000 / (4096 * f))\<close>: the integer nearest to the quotient (strictly nearer than
  any other), which lies between 4 and 254 and so fits the byte written unchanged.
\<close>

theorem frequency_set_sequence:
  assumes "24 \<le> f" "f \<le> 1526"
  shows "\<exists>scale.
           2 * \<bar>25000000 - 4096 * f * scale\<bar> < 4096 * f
         \<and> scale = py_round_div 25000000 (4096 * f)
         \<and> 4 \<le> scale \<and> scale \<le> 254
         \<and> uint (word_of_int scale :: byte) = scale
         \<and> fst (frequency_set b f s) = Inr ()
         \<and> trace (snd (frequency_set b f s)) =
             trace s @ [Writeto_mem (address b) 0x00 [0x10],
                        Writeto_mem (address b) 0xFE [word_of_int scale],
                        Writeto_mem (address b) 0x00 [0x00],
                        Sleep_us 500,
                        Writeto_mem (address b) 0x00 [0xA1]]"
proof -
  let ?scale = "py_round_div 25000000 (4096 * f)"
  have pos: "0 < f" using assms by simp
  have near: "2 * \<bar>25000000 - 4096 * f * ?scale\<bar> < 4096 * f"
    by (rule py_round_div_nearest [OF pos])
  have rng: "4 \<le> ?scale" "?scale \<le> 254"
    by (rule scale_range [OF assms])+
  have byte: "uint (word_of_int ?scale :: byte) = ?scale"
    using rng by (intro byte_of_scale) simp_all
  show ?thesis
    using near rng byte frequency_set_in_range(1,2) [OF assms, of b s] by blast
qed

theorem frequency_set_sequence_witness:
  "(24::int) \<le> 50 \<and> (50::int) \<le> 1526
   \<and> fst (frequency_set (PCA9685 0x40) 50 \<lparr>mem = (\<lambda>_. 0), trace = []\<rparr>) = Inr ()
   \<and> trace (snd (frequency_set (PCA9685 0x40) 50 \<lparr>mem = (\<lambda>_. 0), trace = []\<rparr>)) =
       [Writeto_mem 0x40 0x00 [0x10], Writeto_mem 0x40 0xFE [122],
        Writeto_mem 0x40 0x00 [0x00], Sleep_us 500, Writeto_mem 0x40 0x00 [0xA1]]"
proof -
  have s: "py_round_div 25000000 204800 = 122"
    by (simp add: py_round_div_def Let_def)
  show ?thesis
    using frequency_set_sequence [of 50 "PCA9685 0x40" "\<lparr>mem = (\<lambda>_. 0), trace = []\<rparr>"]
    by (simp add: s)
qed

text \<open>
  Claim C7. The setter of \<^verbatim>\<open>frequency\<close> fails exactly when the frequency is below 24 or above
  1526; the failure is the ValueError of the range check, raised before any bus call, so the
  bus is as it was. For every frequency from 24 to 1526 (the bounds included) it succeeds.
  The witness evaluates 23, 1527, 24 and 1526.
\<close>

theorem frequency_set_range_check:
  "(\<exists>e. fst (frequency_set b f s) = Inl e) = (f < 24 \<or> 1526 < f)
   \<and> (f < 24 \<or> 1526 < f \<longrightarrow> frequency_set b f s = (Inl (ValueError InvalidFrequency), s))
   \<and> (24 \<le> f \<and> f \<le> 1526 \<longrightarrow> fst (frequency_set b f s) = Inr ())"
proof (cases "24 \<le> f \<and> f \<le> 1526")
  case True
  then have "fst (frequency_set b f s) = Inr ()"
    by (simp add: frequency_set_in_range(1))
  with True show ?thesis by auto
next
  case False
  then have out: "f < 24 \<or> 1526 < f" by linarith
  then have "frequency_set b f s = (Inl (ValueError InvalidFrequency), s)"
    by (rule frequency_set_out_of_range)
  with out show ?thesis by auto
qed

theorem frequency_set_range_check_witness:
  "frequency_set (PCA9685 0x40) 23 \<lparr>mem = (\<lambda>_. 0), trace = []\<rparr>
     = (Inl (ValueError InvalidFrequency), \<lparr>mem = (\<lambda>_. 0), trace = []\<rparr>)
   \<and> frequency_set (PCA9685 0x40) 1527 \<lparr>mem = (\<lambda>_. 0), trace = []\<rparr>
     = (Inl (ValueError InvalidFrequency), \<lparr>mem = (\<lambda>_. 0), trace = []\<rparr>)
   \<and> fst (frequency_set (PCA9685 0x40) 24 \<lparr>mem = (\<lambda>_. 0), trace = []\<rparr>) = Inr ()
   \<and> fst (frequency_set (PCA9685 0x40) 1526 \<lparr>mem = (\<lambda>_. 0), trace = []\<rparr>) = Inr ()"
  using frequency_set_range_check [of "PCA9685 0x40" 23 "\<lparr>mem = (\<lambda>_. 0), trace = []\<rparr>"]
    frequency_set_range_check [of "PCA9685 0x40" 1527 "\<lparr>mem = (\<lambda>_. 0), trace = []\<rparr>"]
    frequency_set_range_check [of "PCA9685 0x40" 24 "\<lparr>mem = (\<lambda>_. 0), trace = []\<rparr>"]
    frequency_set_range_check [of "PCA9685 0x40" 1526 "\<lparr>mem = (\<lambda>_. 0), trace = []\<rparr>"]
  by simp

section \<open>Reading board memory\<close>

lemma upt_0_4: "[0..<4] = [0, 1, 2, 3]"
  by code_simp

text \<open>
  Claim C9. \<^verbatim>\<open>read_memory\<close> raises its invalid-length ValueError exactly when the length is
  neither 1 nor even, and then nothing has been asked of the bus and the state is as before.
  For length 1 and for every even length it makes the one call \<^verbatim>\<open>readfrom_mem\<close> with that
  address and length and changes no register; for such a length that is a byte count (not
  negative) the result is the bytes of the registers read, as a tuple of integers when
  \<open>unpack\<close> is set and as the raw buffer otherwise. (A negative even length passes the check
  too and is handed to the bus object, whose answer is then the result.)
\<close>

theorem read_memory_length_check:
  "(fst (read_memory b m len u s) = Inl (ValueError InvalidReadLength)) = (len \<noteq> 1 \<and> odd len)
   \<and> (len \<noteq> 1 \<and> odd len \<longrightarrow> snd (read_memory b m len u s) = s)
   \<and> (len = 1 \<or> even len \<longrightarrow>
        trace (snd (read_memory b m len u s)) = trace s @ [Readfrom_mem (address b) m len]
      \<and> mem (snd (read_memory b m len u s)) = mem s)
   \<and> ((len = 1 \<or> even len) \<and> 0 \<le> len \<longrightarrow>
        fst (read_memory b m len u s) =
          Inr (if u then Unpacked (map (\<lambda>i. uint (mem s (address b, m + int i))) [0..<nat len])
               else Raw (map (\<lambda>i. mem s (address b, m + int i)) [0..<nat len])))"
proof (cases "len = 1 \<or> len mod 2 = 0")
  case True
  then have ok: "len = 1 \<or> even len" by presburger
  then have notodd: "\<not> (len \<noteq> 1 \<and> odd len)" by blast
  have r: "read_memory b m len u s =
        io_bind (readfrom_mem (address b) m len)
             (\<lambda>data. if u then io_return (Unpacked (map uint data))
                      else io_return (Raw data)) s"
    using True by (simp add: read_memory_def)
  have 1: "fst (read_memory b m len u s) \<noteq> Inl (ValueError InvalidReadLength)"
    by (simp add: r io_bind_def readfrom_mem_def io_return_def Let_def)
  have 2: "trace (snd (read_memory b m len u s)) = trace s @ [Readfrom_mem (address b) m len]"
    by (simp add: r io_bind_def readfrom_mem_def io_return_def Let_def)
  have 3: "mem (snd (read_memory b m len u s)) = mem s"
    by (simp add: r io_bind_def readfrom_mem_def io_return_def Let_def)
  have 4: "0 \<le> len \<Longrightarrow> fst (read_memory b m len u s) =
          Inr (if u then Unpacked (map (\<lambda>i. uint (mem s (address b, m + int i))) [0..<nat len])
               else Raw (map (\<lambda>i. mem s (address b, m + int i)) [0..<nat len]))"
    by (simp add: r io_bind_def readfrom_mem_def io_return_def Let_def comp_def)
  show ?thesis using ok notodd 1 2 3 4 by blast
next
  case False
  then have bad: "len \<noteq> 1 \<and> odd len" by presburger
  have "read_memory b m len u s = (Inl (ValueError InvalidReadLength), s)"
    using False by (simp add: read_memory_def io_raise_def)
  then show ?thesis using bad by simp
qed

theorem read_memory_length_check_witness:
  "read_memory (PCA9685 0x40) 6 3 True \<lparr>mem = (\<lambda>_. 7), trace = []\<rparr>
     = (Inl (ValueError InvalidReadLength), \<lparr>mem = (\<lambda>_. 7), trace = []\<rparr>)
   \<and> fst (read_memory (PCA9685 0x40) 6 4 False \<lparr>mem = (\<lambda>_. 7), trace = []\<rparr>) = Inr (Raw [7, 7, 7, 7])
   \<and> trace (snd (read_memory (PCA9685 0x40) 6 4 False \<lparr>mem = (\<lambda>_. 7), trace = []\<rparr>))
       = [Readfrom_mem 0x40 6 4]
   \<and> fst (read_memory (PCA9685 0x40) 254 1 True \<lparr>mem = (\<lambda>_. 7), trace = []\<rparr>) = Inr (Unpacked [7])"
  using read_memory_length_check [of "PCA9685 0x40" 6 3 True "\<lparr>mem = (\<lambda>_. 7), trace = []\<rparr>"]
    read_memory_length_check [of "PCA9685 0x40" 6 4 False "\<lparr>mem = (\<lambda>_. 7), trace = []\<rparr>"]
    read_memory_length_check [of "PCA9685 0x40" 254 1 True "\<lparr>mem = (\<lambda>_. 7), trace = []\<rparr>"]
  by (simp add: prod_eq_iff upt_0_4)

section \<open>Duty writes through a servo pin\<close>

lemma set_pwm_ok:
  assumes "0 \<le> on" "on \<le> 4095" "0 \<le> off" "off \<le> 4096"
  shows "set_pwm parent p on off s =
           (Inr (), s\<lparr>mem := store (mem s) (address parent) (pin_address p) (pack_2H on off),
                      trace := trace s @ [Writeto_mem (address parent) (pin_address p) (pack_2H on off)]\<rparr>)"
  using assms by (simp add: set_pwm_def write_memory_def writeto_mem_def)

lemma servo_duty_set:
  assumes "0 \<le> mn" "mn \<le> mx" "mx < 4095"
  shows "\<exists>c. mn \<le> c \<and> c \<le> mx \<and> (c = 0 \<or> c = min mx (max mn v)) \<and>
             duty_set (ServoController a mn mx) p v s =
               (Inr (), s\<lparr>mem := store (mem s) a (pin_address p) (pack_2H 0 (if c = 0 then 4096 else c)),
                          trace := trace s @ [Writeto_mem a (pin_address p) (pack_2H 0 (if c = 0 then 4096 else c))]\<rparr>)"
proof -
  let ?c = "min mx (max mn v)"
  have rng: "mn \<le> ?c" "?c \<le> mx" using assms by simp_all
  have d: "duty_set (ServoController a mn mx) p v s =
        (if ?c = 0 then set_pwm (ServoController a mn mx) p 0 4096 s
         else set_pwm (ServoController a mn mx) p 0 ?c s)"
    using rng assms by (auto simp add: duty_set_def duty_bound_def Let_def)
  show ?thesis
  proof (cases "?c = 0")
    case True
    then show ?thesis using d rng by (intro exI [of _ ?c]) (simp add: set_pwm_ok)
  next
    case False
    have "0 \<le> ?c" "?c \<le> 4096" using rng assms by linarith+
    then show ?thesis using d rng False by (intro exI [of _ ?c]) (simp add: set_pwm_ok)
  qed
qed

text \<open>
  Claim C10. On a \<open>ServoController\<close> with \<open>0 < min_duty \<le> max_duty < 4095\<close>, assigning any
  integer \<open>v\<close> to \<^verbatim>\<open>duty\<close> of a pin succeeds and adds exactly one bus write, at the pin's
  register, of the packed pair \<open>(0, c)\<close> where \<open>c\<close> is \<open>v\<close> clamped, so
  \<open>min_duty \<le> c \<le> max_duty\<close>. The buffer written decodes to \<open>(0, c)\<close> and is neither the
  full-off buffer of \<open>(0, 4096)\<close> nor the full-on buffer of \<open>(4096, 0)\<close>.
\<close>

theorem servo_duty_single_write:
  assumes "0 < mn" "mn \<le> mx" "mx < 4095"
  shows "\<exists>c. c = min mx (max mn v) \<and> mn \<le> c \<and> c \<le> mx
           \<and> fst (duty_set (ServoController a mn mx) (PWMPin i) v s) = Inr ()
           \<and> trace (snd (duty_set (ServoController a mn mx) (PWMPin i) v s)) =
               trace s @ [Writeto_mem a (0x06 + 4 * i) (pack_2H 0 c)]
           \<and> unpack_2H (pack_2H 0 c) = Some (0, c)
           \<and> pack_2H 0 c \<noteq> pack_2H 0 4096
           \<and> pack_2H 0 c \<noteq> pack_2H 4096 0"
proof -
  let ?c = "min mx (max mn v)"
  have rng: "mn \<le> ?c" "?c \<le> mx" using assms by simp_all
  then have c: "0 < ?c" "?c < 4095" using assms by linarith+
  have d: "duty_set (ServoController a mn mx) (PWMPin i) v s =
             set_pwm (ServoController a mn mx) (PWMPin i) 0 ?c s"
    using c by (auto simp add: duty_set_def duty_bound_def Let_def)
  have w: "set_pwm (ServoController a mn mx) (PWMPin i) 0 ?c s =
           (Inr (), s\<lparr>mem := store (mem s) a (0x06 + 4 * i) (pack_2H 0 ?c),
                      trace := trace s @ [Writeto_mem a (0x06 + 4 * i) (pack_2H 0 ?c)]\<rparr>)"
    using c by (simp add: set_pwm_ok PWMPin_def)
  have u: "unpack_2H (pack_2H 0 ?c) = Some (0, ?c)"
    using c by (intro unpack_pack_2H) simp_all
  have u1: "unpack_2H (pack_2H 0 4096) = Some (0, 4096)"
    by (intro unpack_pack_2H) simp_all
  have u2: "unpack_2H (pack_2H 4096 0) = Some (4096, 0)"
    by (intro unpack_pack_2H) simp_all
  have n1: "pack_2H 0 ?c \<noteq> pack_2H 0 4096"
  proof
    assume "pack_2H 0 ?c = pack_2H 0 4096"
    then have "Some (0, ?c) = Some (0::int, 4096::int)" using u u1 by simp
    then show False using c by simp
  qed
  have n2: "pack_2H 0 ?c \<noteq> pack_2H 4096 0"
  proof
    assume "pack_2H 0 ?c = pack_2H 4096 0"
    then have "Some (0, ?c) = Some (4096::int, 0::int)" using u u2 by simp
    then show False by simp
  qed
  show ?thesis using rng d w u n1 n2 by simp
qed

theorem servo_duty_single_write_witness:
  "(0::int) < 180 \<and> (180::int) \<le> 500 \<and> (500::int) < 4095
   \<and> fst (duty_set (ServoController 0x40 180 500) (PWMPin 2) 4095 \<lparr>mem = (\<lambda>_. 0), trace = []\<rparr>) = Inr ()
   \<and> trace (snd (duty_set (ServoController 0x40 180 500) (PWMPin 2) 4095 \<lparr>mem = (\<lambda>_. 0), trace = []\<rparr>))
       = [Writeto_mem 0x40 14 [0, 0, 0xF4, 0x01]]
   \<and> trace (snd (duty_set (ServoController 0x40 180 500) (PWMPin 2) 0 \<lparr>mem = (\<lambda>_. 0), trace = []\<rparr>))
       = [Writeto_mem 0x40 14 [0, 0, 0xB4, 0x00]]"
  using servo_duty_single_write [of 180 500 4095 "0x40" 2 "\<lparr>mem = (\<lambda>_. 0), trace = []\<rparr>"]
    servo_duty_single_write [of 180 500 0 "0x40" 2 "\<lparr>mem = (\<lambda>_. 0), trace = []\<rparr>"]
  by (simp add: pack_2H_def)

section \<open>The duty of a plain PWM pin\<close>

text \<open>
  Below 4095 a duty written to a pin of a plain \<open>PCA9685\<close> reads back as itself: 0 goes
  through the full-off pair \<open>(0, 4096)\<close>, every other value through \<open>(0, v)\<close>.
\<close>

lemma duty_roundtrip_below_4095:
  assumes "0 \<le> v" "v < 4095"
  shows "fst (io_bind (duty_set (PCA9685 a) (PWMPin i) v) (\<lambda>_. duty (PCA9685 a) (PWMPin i)) s) = Inr v"
proof -
  have hi: "v div 256 mod 256 = v div 256"
    using assms by (simp add: div_less_iff_less_mult)
  have lo: "uint (word_of_int (v mod 256) :: byte) = v mod 256"
    by (simp add: uint_word_of_int take_bit_eq_mod)
  have up: "uint (word_of_int (v div 256) :: byte) = v div 256"
    using hi by (simp add: uint_word_of_int take_bit_eq_mod)
  show ?thesis
  proof (cases "v = 0")
    case True
    then show ?thesis
      by (simp add: duty_set_def duty_bound_def set_pwm_def write_memory_def writeto_mem_def
          duty_def pwm_def read_memory_def readfrom_mem_def io_bind_def io_return_def
          PWMPin_def pack_2H_def upt_0_4 Let_def)
  next
    case False
    then show ?thesis
      using assms
      by (simp add: duty_set_def duty_bound_def set_pwm_def write_memory_def writeto_mem_def
          duty_def pwm_def read_memory_def readfrom_mem_def io_bind_def io_return_def
          PWMPin_def pack_2H_def upt_0_4 Let_def hi lo up)
  qed
qed

text \<open>
  Claim C4, at the duty 4095. The setter of \<^verbatim>\<open>duty\<close> calls \<^verbatim>\<open>set_pwm(4096, 0)\<close>, and
  \<^verbatim>\<open>set_pwm\<close> refuses an on-count above 4095: the assignment ends in the ValueError of
  \<^verbatim>\<open>set_pwm\<close> and nothing is written, so no later read can return 4095 on its account.
  The getter does decode the pair \<open>(4096, 0)\<close> as 4095 when the registers hold it.
\<close>

theorem duty_set_4095_rejected:
  "duty_set (PCA9685 a) (PWMPin i) 4095 s = (Inl (ValueError InvalidPWM), s)
   \<and> fst (duty (PCA9685 a) (PWMPin i)
             (s\<lparr>mem := store (mem s) a (0x06 + 4 * i) (pack_2H 4096 0)\<rparr>)) = Inr 4095"
  by (simp add: duty_set_def duty_bound_def set_pwm_def io_raise_def duty_def pwm_def
      read_memory_def readfrom_mem_def io_bind_def io_return_def PWMPin_def pack_2H_def
      upt_0_4 Let_def)

section \<open>Reading the frequency back\<close>

text \<open>
  After a successful setter the getter of \<^verbatim>\<open>frequency\<close> returns a value from 24 to 1221.
\<close>

lemma frequency_roundtrip_range:
  assumes "24 \<le> f" "f \<le> 1526"
  shows "\<exists>g. fst (io_bind (frequency_set b f) (\<lambda>_. frequency b) s) = Inr g \<and> 24 \<le> g \<and> g \<le> 1221"
proof -
  let ?s = "py_round_div 25000000 (4096 * f)"
  have rng: "4 \<le> ?s" "?s \<le> 254" by (rule scale_range [OF assms])+
  have rd: "fst (frequency b t) = Inr (py_round_div 25000000 (4096 * (uint (mem t (address b, 0xFE)) + 1)))" for t
    by (simp add: frequency_def read_memory_def readfrom_mem_def io_bind_def io_return_def Let_def)
  have m: "uint (mem (snd (frequency_set b f s)) (address b, 0xFE)) = ?s"
    using frequency_set_in_range(3) [OF assms, of b s] rng by (simp add: byte_of_scale)
  have ok: "fst (frequency_set b f s) = Inr ()"
    using assms by (simp add: frequency_set_in_range(1))
  have e: "fst (io_bind (frequency_set b f) (\<lambda>_. frequency b) s)
          = Inr (py_round_div 25000000 (4096 * (?s + 1)))"
    using ok by (cases "frequency_set b f s") (simp add: io_bind_def rd m [symmetric])
  define k where "k = ?s + 1"
  define g where "g = py_round_div 25000000 (4096 * k)"
  define p where "p = k * g"
  have k: "5 \<le> k" "k \<le> 255" using rng by (simp_all add: k_def)
  then have kpos: "0 < k" by simp
  have "2 * \<bar>25000000 - 4096 * k * g\<bar> < 4096 * k"
    unfolding g_def by (rule py_round_div_nearest [OF kpos])
  then have n: "2 * \<bar>25000000 - 4096 * p\<bar> < 4096 * k"
    by (simp add: p_def mult.assoc)
  have "24 \<le> g"
  proof (rule ccontr)
    assume "\<not> 24 \<le> g"
    then have "g \<le> 23" by simp
    then have "p \<le> k * 23" unfolding p_def using kpos by (intro mult_left_mono) simp_all
    then show False using n k by (simp add: abs_less_iff)
  qed
  moreover have "g \<le> 1221"
  proof (rule ccontr)
    assume "\<not> g \<le> 1221"
    then have "1222 \<le> g" by simp
    then have "k * 1222 \<le> p" unfolding p_def using kpos by (intro mult_left_mono) simp_all
    then show False using n k by (simp add: abs_less_iff)
  qed
  ultimately show ?thesis using e by (simp add: g_def k_def)
qed

text \<open>
  Claim C8, at the frequency 1356. The setter writes the prescaler value 5 (the rounded
  quotient, with no 1 subtracted), and the getter, which adds 1 to the register, returns
  1017. The prescaler values 4 and 3 read back as 1221 and 1526: both are nearer to 1356
  than 1017 is, and 1221 lies strictly between the value returned and the one requested.
\<close>

theorem frequency_roundtrip_1356:
  "fst (io_bind (frequency_set b 1356) (\<lambda>_. frequency b) s) = Inr 1017
   \<and> mem (snd (frequency_set b 1356 s)) (address b, 0xFE) = 5
   \<and> fst (frequency b (s\<lparr>mem := (mem s)((address b, 0xFE) := 4)\<rparr>)) = Inr 1221
   \<and> fst (frequency b (s\<lparr>mem := (mem s)((address b, 0xFE) := 3)\<rparr>)) = Inr 1526"
proof -
  have sc: "py_round_div 25000000 (4096 * 1356) = 5"
    by (simp add: py_round_div_def Let_def)
  have g: "py_round_div 25000000 (4096 * (5 + 1)) = 1017"
      "py_round_div 25000000 (4096 * (4 + 1)) = 1221"
      "py_round_div 25000000 (4096 * (3 + 1)) = 1526"
    by (simp_all add: py_round_div_def Let_def)
  have rd: "fst (frequency b t) = Inr (py_round_div 25000000 (4096 * (uint (mem t (address b, 0xFE)) + 1)))" for t
    by (simp add: frequency_def read_memory_def readfrom_mem_def io_bind_def io_return_def Let_def)
  have m: "mem (snd (frequency_set b 1356 s)) (address b, 0xFE) = 5"
    using frequency_set_in_range(3) [of 1356 b s] sc by simp
  have ok: "fst (frequency_set b 1356 s) = Inr ()"
    by (simp add: frequency_set_in_range(1))
  have "fst (io_bind (frequency_set b 1356) (\<lambda>_. frequency b) s)
          = fst (frequency b (snd (frequency_set b 1356 s)))"
    using ok by (cases "frequency_set b 1356 s") (simp add: io_bind_def)
  also have "\<dots> = Inr 1017"
    using g(1) by (simp add: rd m)
  finally have 1: "fst (io_bind (frequency_set b 1356) (\<lambda>_. frequency b) s) = Inr 1017" .
  show ?thesis
    using 1 m g by (simp add: rd)
qed

section \<open>Writing a number to the clock face\<close>

lemma ones_eq: "ones = [(0, 0), (1, 1), (2, 2), (3, 3), (4, 4), (5, 5), (6, 6)]"
  by code_simp

lemma tens_eq: "tens = [(0, 7), (1, 8), (2, 9), (3, 10), (4, 11), (5, 12), (6, 13)]"
  by code_simp

lemma pins_index:
  assumes "0 \<le> pin" "pin < 16"
  shows "py_index (pins b) pin = Some (PWMPin pin)"
  using assms by (simp add: py_index_def pins_def)

lemma bits_index_None:
  "(py_index bits_representation d = None) = (d < -10 \<or> 9 < d)"
  by (auto simp add: py_index_def bits_representation_def)

lemma write_place_fail:
  assumes "py_index bits_representation digit = None" "0 \<le> pin" "pin < 16"
  shows "write_place seg digit ((idx, pin) # rest) s = (Inl IndexError, s)"
  using assms by (simp add: pins_index io_raise_def split: prod.splits)

lemma write_place_ok:
  assumes b: "board seg = ServoController a mn mx"
    and bounds: "0 \<le> mn" "mn \<le> mx" "mx < 4095"
    and digit: "py_index bits_representation digit = Some bits"
    and ps: "list_all (\<lambda>(idx, pin). 0 \<le> pin \<and> pin < 16) ps"
  shows "\<exists>bufs s'. length bufs = length ps
           \<and> write_place seg digit ps s = (Inr (), s')
           \<and> trace s' = trace s @ map (\<lambda>(ch, buf). Writeto_mem a (6 + 4 * ch) buf) (zip (map snd ps) bufs)"
  using ps
proof (induction ps arbitrary: s)
  case Nil
  show ?case by (simp add: io_return_def)
next
  case (Cons x rest)
  obtain idx pin where x: "x = (idx, pin)" by (cases x)
  from Cons.prems x have pin: "0 \<le> pin" "pin < 16" and rest: "list_all (\<lambda>(idx, pin). 0 \<le> pin \<and> pin < 16) rest"
    by simp_all
  obtain off on where du: "duties seg pin = (off, on)" by (cases "duties seg pin")
  define v where "v = (if bits AND 2 ^ idx \<noteq> 0 then on else off)"
  obtain c where step: "duty_set (ServoController a mn mx) (PWMPin pin) v s =
       (Inr (), s\<lparr>mem := store (mem s) a (pin_address (PWMPin pin)) (pack_2H 0 (if c = 0 then 4096 else c)),
                  trace := trace s @ [Writeto_mem a (pin_address (PWMPin pin)) (pack_2H 0 (if c = 0 then 4096 else c))]\<rparr>)"
    using servo_duty_set [OF bounds, of v a "PWMPin pin" s] by blast
  define buf where "buf = pack_2H 0 (if c = 0 then 4096 else c)"
  define s1 where "s1 = s\<lparr>mem := store (mem s) a (pin_address (PWMPin pin)) buf,
                  trace := trace s @ [Writeto_mem a (pin_address (PWMPin pin)) buf]\<rparr>"
  have step': "duty_set (ServoController a mn mx) (PWMPin pin) v s = (Inr (), s1)"
    using step by (simp add: s1_def buf_def)
  obtain bufs s' where ih: "length bufs = length rest"
      "write_place seg digit rest s1 = (Inr (), s')"
      "trace s' = trace s1 @ map (\<lambda>(ch, buf). Writeto_mem a (6 + 4 * ch) buf) (zip (map snd rest) bufs)"
    using Cons.IH [OF rest, of s1] by blast
  have run: "write_place seg digit (x # rest) s = write_place seg digit rest s1"
    using step' by (simp add: x du pins_index [OF pin] digit b v_def io_bind_def split: if_splits)
  have tr: "trace s' = trace s @ map (\<lambda>(ch, buf). Writeto_mem a (6 + 4 * ch) buf)
                                   (zip (map snd (x # rest)) (buf # bufs))"
    using ih(3) by (simp add: s1_def x PWMPin_def)
  show ?case
    using ih(1) ih(2) run tr by (intro exI [of _ "buf # bufs"] exI [of _ s']) simp
qed

lemma ones_pins_ok: "list_all (\<lambda>(idx, pin). 0 \<le> pin \<and> pin < 16) ones"
  by (simp add: ones_eq)

lemma tens_pins_ok: "list_all (\<lambda>(idx, pin). 0 \<le> pin \<and> pin < 16) tens"
  by (simp add: tens_eq)

lemma default_duties:
  "duties \<lparr>board = ServoController a mn mx, duties_list = []\<rparr> pin = (mn, mx)"
  by (auto simp add: duties_def py_index_def)

lemma duty_set_180_500:
  assumes "v = 180 \<or> v = 500"
  shows "duty_set (ServoController a 180 500) (PWMPin i) v t =
       (Inr (), t\<lparr>mem := store (mem t) a (0x06 + 4 * i) (pack_2H 0 v),
                  trace := trace t @ [Writeto_mem a (0x06 + 4 * i) (pack_2H 0 v)]\<rparr>)"
  using assms
  by (auto simp add: duty_set_def duty_bound_def set_pwm_def write_memory_def writeto_mem_def
      PWMPin_def Let_def)

lemma bits_index_digits:
  "py_index bits_representation 0 = Some 0x3F"
  "py_index bits_representation 2 = Some 0x5B"
  "py_index bits_representation 4 = Some 0x66"
  "py_index bits_representation 9 = Some 0x6F"
  "py_index bits_representation (- 1) = Some 0x6F"
  "py_index bits_representation 10 = None"
  by (simp_all add: py_index_def bits_representation_def)

text \<open>
  Claim C2. A \<open>Segment\<close> with an empty duty list on a \<open>ServoController\<close> with
  \<open>min_duty = 180\<close> and \<open>max_duty = 500\<close>: \<^verbatim>\<open>write(42)\<close> succeeds and adds to the record of bus
  calls exactly fourteen writes, one per channel 0 to 13 at the register \<open>0x06 + 4 * channel\<close>,
  each the packed pair \<open>(0, duty)\<close>. For the ones digit 2 (mask \<open>0x5B\<close>) the channels 0, 1, 3, 4
  and 6 get 500 and the channels 2 and 5 get 180; for the tens digit 4 (mask \<open>0x66\<close>) the
  channels 8, 9, 12 and 13 get 500 and the channels 7, 10 and 11 get 180.
\<close>

theorem Segment_write_42:
  "fst (Segment_write \<lparr>board = ServoController a 180 500, duties_list = []\<rparr> 42 s) = Inr ()
   \<and> trace (snd (Segment_write \<lparr>board = ServoController a 180 500, duties_list = []\<rparr> 42 s)) =
       trace s @ map (\<lambda>(ch, d). Writeto_mem a (0x06 + 4 * ch) (pack_2H 0 d))
         [(0, 500), (1, 500), (2, 180), (3, 500), (4, 500), (5, 180), (6, 500),
          (7, 180), (8, 500), (9, 500), (10, 180), (11, 180), (12, 500), (13, 500)]
   \<and> pack_2H 0 500 = [0x00, 0x00, 0xF4, 0x01]
   \<and> pack_2H 0 180 = [0x00, 0x00, 0xB4, 0x00]"
proof -
  let ?seg = "\<lparr>board = ServoController a 180 500, duties_list = []\<rparr>"
  have o: "write_place ?seg 2 ones s = (Inr (), snd (write_place ?seg 2 ones s))"
      "trace (snd (write_place ?seg 2 ones s)) =
         trace s @ map (\<lambda>(ch, d). Writeto_mem a (0x06 + 4 * ch) (pack_2H 0 d))
           [(0, 500), (1, 500), (2, 180), (3, 500), (4, 500), (5, 180), (6, 500)]"
    by (simp_all add: ones_eq default_duties bits_index_digits pins_index duty_set_180_500
        io_bind_def io_return_def)
  have t: "fst (write_place ?seg 4 tens t) = Inr ()"
      "trace (snd (write_place ?seg 4 tens t)) =
         trace t @ map (\<lambda>(ch, d). Writeto_mem a (0x06 + 4 * ch) (pack_2H 0 d))
           [(7, 180), (8, 500), (9, 500), (10, 180), (11, 180), (12, 500), (13, 500)]" for t
    by (simp_all add: tens_eq default_duties bits_index_digits pins_index duty_set_180_500
        io_bind_def io_return_def)
  have run: "Segment_write ?seg 42 s = write_place ?seg 4 tens (snd (write_place ?seg 2 ones s))"
    using o(1) by (cases "write_place ?seg 2 ones s") (simp add: Segment_write_def io_bind_def)
  have p: "pack_2H 0 500 = [0x00, 0x00, 0xF4, 0x01]" "pack_2H 0 180 = [0x00, 0x00, 0xB4, 0x00]"
    by (simp_all add: pack_2H_def)
  show ?thesis
    using p by (simp add: run t o(2))
qed

text \<open>
  Claim C1, as the code has it. \<^verbatim>\<open>Segment.write\<close> checks no range. On a \<open>ServoController\<close>
  with \<open>0 \<le> min_duty \<le> max_duty < 4095\<close>: for a number above 99 or below -100 the call
  fails with IndexError (the subscript of the digit table by the tens digit), but only after
  the seven writes of the ones place, to the channels 0 to 6, have gone to the bus; for a
  number from -100 to 99, the negative ones included, the call succeeds and writes all
  fourteen channels, since a tens digit from -10 to -1 subscripts the table from its end.
\<close>

theorem Segment_write_unguarded:
  assumes b: "board seg = ServoController a mn mx"
    and bounds: "0 \<le> mn" "mn \<le> mx" "mx < 4095"
  shows "(number < -100 \<or> 99 < number \<longrightarrow>
            fst (Segment_write seg number s) = Inl IndexError
          \<and> (\<exists>bufs. length bufs = 7
                \<and> trace (snd (Segment_write seg number s)) =
                    trace s @ map (\<lambda>(ch, buf). Writeto_mem a (0x06 + 4 * ch) buf)
                                (zip [0, 1, 2, 3, 4, 5, 6] bufs)))
       \<and> (-100 \<le> number \<and> number \<le> 99 \<longrightarrow>
            fst (Segment_write seg number s) = Inr ()
          \<and> (\<exists>bufs. length bufs = 14
                \<and> trace (snd (Segment_write seg number s)) =
                    trace s @ map (\<lambda>(ch, buf). Writeto_mem a (0x06 + 4 * ch) buf)
                                (zip [0, 1, 2, 3, 4, 5, 6, 7, 8, 9, 10, 11, 12, 13] bufs)))"
proof -
  have "0 \<le> number mod 10" "number mod 10 < 10"
    by simp_all
  then have "\<not> (number mod 10 < -10 \<or> 9 < number mod 10)"
    by linarith
  then have "py_index bits_representation (number mod 10) \<noteq> None"
    by (simp only: bits_index_None not_False_eq_True)
  then obtain bits where ob: "py_index bits_representation (number mod 10) = Some bits"
    by blast
  have lo: "length ones = 7" "map snd ones = [0, 1, 2, 3, 4, 5, 6]"
    by (simp_all add: ones_eq)
  have lt: "length tens = 7" "map snd tens = [7, 8, 9, 10, 11, 12, 13]"
    by (simp_all add: tens_eq)
  obtain bufs1 s1 where o': "length bufs1 = length ones"
      "write_place seg (number mod 10) ones s = (Inr (), s1)"
      "trace s1 = trace s @ map (\<lambda>(ch, buf). Writeto_mem a (0x06 + 4 * ch) buf)
                               (zip (map snd ones) bufs1)"
    using write_place_ok [OF b bounds ob ones_pins_ok, of s] by blast
  have o: "length bufs1 = 7"
      "write_place seg (number mod 10) ones s = (Inr (), s1)"
      "trace s1 = trace s @ map (\<lambda>(ch, buf). Writeto_mem a (0x06 + 4 * ch) buf)
                               (zip [0, 1, 2, 3, 4, 5, 6] bufs1)"
    using o' by (simp_all only: lo)
  have run: "Segment_write seg number s = write_place seg (number div 10) tens s1"
    using o(2) by (simp add: Segment_write_def io_bind_def)
  show ?thesis
  proof (cases "number < -100 \<or> 99 < number")
    case True
    then have "number div 10 < -10 \<or> 9 < number div 10" by linarith
    then have "py_index bits_representation (number div 10) = None"
      by (simp add: bits_index_None)
    then have "write_place seg (number div 10)
                 ((0, 7) # [(1, 8), (2, 9), (3, 10), (4, 11), (5, 12), (6, 13)]) s1
               = (Inl IndexError, s1)"
      by (intro write_place_fail) simp_all
    then have "write_place seg (number div 10) tens s1 = (Inl IndexError, s1)"
      by (simp only: tens_eq)
    then show ?thesis using True run o(1) o(3) by auto
  next
    case False
    then have "\<not> (number div 10 < -10 \<or> 9 < number div 10)" by linarith
    then have "py_index bits_representation (number div 10) \<noteq> None"
      by (simp add: bits_index_None)
    then obtain bits' where tb: "py_index bits_representation (number div 10) = Some bits'"
      by blast
    obtain bufs2 s2 where t': "length bufs2 = length tens"
        "write_place seg (number div 10) tens s1 = (Inr (), s2)"
        "trace s2 = trace s1 @ map (\<lambda>(ch, buf). Writeto_mem a (0x06 + 4 * ch) buf)
                                 (zip (map snd tens) bufs2)"
      using write_place_ok [OF b bounds tb tens_pins_ok, of s1] by blast
    have t: "length bufs2 = 7"
        "write_place seg (number div 10) tens s1 = (Inr (), s2)"
        "trace s2 = trace s1 @ map (\<lambda>(ch, buf). Writeto_mem a (0x06 + 4 * ch) buf)
                                 (zip [7, 8, 9, 10, 11, 12, 13] bufs2)"
      using t' by (simp_all only: lt)
    have z: "zip [0, 1, 2, 3, 4, 5, 6, 7, 8, 9, 10, 11, 12, 13] (bufs1 @ bufs2) =
             zip [0, 1, 2, 3, 4, 5, 6] bufs1 @ zip [7, 8, 9, 10, 11, 12, 13::int] bufs2"
      using zip_append [of "[0, 1, 2, 3, 4, 5, 6::int]" bufs1 "[7, 8, 9, 10, 11, 12, 13]" bufs2] o(1)
      by simp
    have "trace s2 = trace s @ map (\<lambda>(ch, buf). Writeto_mem a (0x06 + 4 * ch) buf)
                 (zip [0, 1, 2, 3, 4, 5, 6, 7, 8, 9, 10, 11, 12, 13] (bufs1 @ bufs2))"
      by (simp only: z t(3) o(3) map_append append_assoc)
    moreover have "length (bufs1 @ bufs2) = 14" using o(1) t(1) by simp
    ultimately have "\<exists>bufs. length bufs = 14 \<and> trace s2 =
           trace s @ map (\<lambda>(ch, buf). Writeto_mem a (0x06 + 4 * ch) buf)
                 (zip [0, 1, 2, 3, 4, 5, 6, 7, 8, 9, 10, 11, 12, 13] bufs)"
      by blast
    then show ?thesis using False run t(2) by simp
  qed
qed

theorem Segment_write_unguarded_witness:
  "fst (Segment_write \<lparr>board = ServoController 0x40 180 500, duties_list = []\<rparr> 100
          \<lparr>mem = (\<lambda>_. 0), trace = []\<rparr>) = Inl IndexError
   \<and> (\<exists>bufs. length bufs = 7
         \<and> trace (snd (Segment_write \<lparr>board = ServoController 0x40 180 500, duties_list = []\<rparr> 100
                          \<lparr>mem = (\<lambda>_. 0), trace = []\<rparr>)) =
             map (\<lambda>(ch, buf). Writeto_mem 0x40 (0x06 + 4 * ch) buf) (zip [0, 1, 2, 3, 4, 5, 6] bufs))
   \<and> fst (Segment_write \<lparr>board = ServoController 0x40 180 500, duties_list = []\<rparr> (- 1)
          \<lparr>mem = (\<lambda>_. 0), trace = []\<rparr>) = Inr ()
   \<and> (\<exists>bufs. length bufs = 14
         \<and> trace (snd (Segment_write \<lparr>board = ServoController 0x40 180 500, duties_list = []\<rparr> (- 1)
                          \<lparr>mem = (\<lambda>_. 0), trace = []\<rparr>)) =
             map (\<lambda>(ch, buf). Writeto_mem 0x40 (0x06 + 4 * ch) buf)
               (zip [0, 1, 2, 3, 4, 5, 6, 7, 8, 9, 10, 11, 12, 13] bufs))"
  using Segment_write_unguarded [of "\<lparr>board = ServoController 0x40 180 500, duties_list = []\<rparr>"
      "0x40" 180 500 100 "\<lparr>mem = (\<lambda>_. 0), trace = []\<rparr>"]
    Segment_write_unguarded [of "\<lparr>board = ServoController 0x40 180 500, duties_list = []\<rparr>"
      "0x40" 180 500 "- 1" "\<lparr>mem = (\<lambda>_. 0), trace = []\<rparr>"]
  by simp

text \<open>
  The claim C1 as stated fails at both of its own examples: \<^verbatim>\<open>write(100)\<close> raises IndexError
  after it has written the digit 0 to the channels 0 to 6, and \<^verbatim>\<open>write(-1)\<close> raises nothing and
  writes the digit 9 to both places.
\<close>

theorem Segment_write_rejects_counterexample:
  "fst (Segment_write \<lparr>board = ServoController 0x40 180 500, duties_list = []\<rparr> 100
          \<lparr>mem = (\<lambda>_. 0), trace = []\<rparr>) = Inl IndexError
   \<and> trace (snd (Segment_write \<lparr>board = ServoController 0x40 180 500, duties_list = []\<rparr> 100
                    \<lparr>mem = (\<lambda>_. 0), trace = []\<rparr>)) =
       map (\<lambda>(ch, d). Writeto_mem 0x40 (0x06 + 4 * ch) (pack_2H 0 d))
         [(0, 500), (1, 500), (2, 500), (3, 500), (4, 500), (5, 500), (6, 180)]
   \<and> fst (Segment_write \<lparr>board = ServoController 0x40 180 500, duties_list = []\<rparr> (- 1)
          \<lparr>mem = (\<lambda>_. 0), trace = []\<rparr>) = Inr ()
   \<and> trace (snd (Segment_write \<lparr>board = ServoController 0x40 180 500, duties_list = []\<rparr> (- 1)
                    \<lparr>mem = (\<lambda>_. 0), trace = []\<rparr>)) =
       map (\<lambda>(ch, d). Writeto_mem 0x40 (0x06 + 4 * ch) (pack_2H 0 d))
         [(0, 500), (1, 500), (2, 500), (3, 500), (4, 180), (5, 500), (6, 500),
          (7, 500), (8, 500), (9, 500), (10, 500), (11, 180), (12, 500), (13, 500)]"
proof -
  let ?seg = "\<lparr>board = ServoController 0x40 180 500, duties_list = []\<rparr>"
  let ?s = "\<lparr>mem = (\<lambda>_. 0), trace = []\<rparr>"
  have d: "(100::int) div 10 = 10" "(100::int) mod 10 = 0" "(- 1::int) div 10 = - 1" "(- 1::int) mod 10 = 9"
    by simp_all
  have o0: "write_place ?seg 0 ones ?s = (Inr (), snd (write_place ?seg 0 ones ?s))"
      "trace (snd (write_place ?seg 0 ones ?s)) =
         map (\<lambda>(ch, d). Writeto_mem 0x40 (0x06 + 4 * ch) (pack_2H 0 d))
           [(0, 500), (1, 500), (2, 500), (3, 500), (4, 500), (5, 500), (6, 180)]"
    by (simp_all add: ones_eq default_duties bits_index_digits pins_index duty_set_180_500
        io_bind_def io_return_def)
  have t10: "write_place ?seg 10 tens t = (Inl IndexError, t)" for t
    by (simp add: tens_eq default_duties bits_index_digits pins_index io_raise_def)
  have r100: "Segment_write ?seg 100 ?s = (Inl IndexError, snd (write_place ?seg 0 ones ?s))"
    using o0(1) by (cases "write_place ?seg 0 ones ?s") (simp add: Segment_write_def io_bind_def d t10)
  have o9: "write_place ?seg 9 ones ?s = (Inr (), snd (write_place ?seg 9 ones ?s))"
      "trace (snd (write_place ?seg 9 ones ?s)) =
         map (\<lambda>(ch, d). Writeto_mem 0x40 (0x06 + 4 * ch) (pack_2H 0 d))
           [(0, 500), (1, 500), (2, 500), (3, 500), (4, 180), (5, 500), (6, 500)]"
    by (simp_all add: ones_eq default_duties bits_index_digits pins_index duty_set_180_500
        io_bind_def io_return_def)
  have tm: "fst (write_place ?seg (- 1) tens t) = Inr ()"
      "trace (snd (write_place ?seg (- 1) tens t)) =
         trace t @ map (\<lambda>(ch, d). Writeto_mem 0x40 (0x06 + 4 * ch) (pack_2H 0 d))
           [(7, 500), (8, 500), (9, 500), (10, 500), (11, 180), (12, 500), (13, 500)]" for t
    by (simp_all add: tens_eq default_duties bits_index_digits pins_index duty_set_180_500
        io_bind_def io_return_def)
  have rm: "Segment_write ?seg (- 1) ?s = write_place ?seg (- 1) tens (snd (write_place ?seg 9 ones ?s))"
    using o9(1) by (cases "write_place ?seg 9 ones ?s") (simp add: Segment_write_def io_bind_def d)
  show ?thesis
    by (simp add: r100 o0(2) rm tm o9(2))
qed

end
